theory Spec2Isabelle
  imports Complex_Main "HOL-Library.Sublist"
begin

section \<open>JavaScript values used by the widgets\<close>

text \<open>
  Strings are lists of characters (one \<open>char\<close> per UTF-16 code unit of the source
  string, so \<open>length\<close> is the source's \<open>.length\<close>). Integral numbers are \<open>int\<close>.
  The remainder operator \<open>%\<close> of the source truncates towards zero and takes the sign
  of the dividend.
\<close>

definition js_rem :: "int \<Rightarrow> int \<Rightarrow> int" where
  "js_rem a b = sgn a * (\<bar>a\<bar> mod \<bar>b\<bar>)"

definition digitChars :: string where
  "digitChars = ''0123456789''"

fun string_of_nat :: "nat \<Rightarrow> string" where
  "string_of_nat n =
     (if n < 10 then [digitChars ! n]
      else string_of_nat (n div 10) @ [digitChars ! (n mod 10)])"

declare string_of_nat.simps [simp del]

text \<open>The template literal \<open>`${n}`\<close> of an integral number: its decimal digits.\<close>

definition string_of_int :: "int \<Rightarrow> string" where
  "string_of_int i = (if i < 0 then CHR ''-'' # string_of_nat (nat (- i)) else string_of_nat (nat i))"

section \<open>DateText: ordinal suffix\<close>

text \<open>
  \<open>getOrdinalSuffix\<close> (DateText/index.tsx, lines 168-177):
  \<^verbatim>\<open>
  const v = day % 100;
  if (v >= 11 && v <= 13) return `${day}th`;
  switch (day % 10) { case 1: `${day}st`; case 2: `${day}nd`; case 3: `${day}rd`; default: `${day}th` }
  \<close>
\<close>

definition getOrdinalSuffix :: "int \<Rightarrow> string" where
  "getOrdinalSuffix day =
     (let v = js_rem day 100 in
      if v \<ge> 11 \<and> v \<le> 13 then string_of_int day @ ''th''
      else if js_rem day 10 = 1 then string_of_int day @ ''st''
      else if js_rem day 10 = 2 then string_of_int day @ ''nd''
      else if js_rem day 10 = 3 then string_of_int day @ ''rd''
      else string_of_int day @ ''th'')"

text \<open>
  The English ordinal rule in the words of the specification: "th" when the day modulo 100
  is 11, 12 or 13; otherwise by the last digit.
\<close>

definition englishOrdinalRule :: "int \<Rightarrow> string" where
  "englishOrdinalRule day =
     (if day mod 100 = 11 \<or> day mod 100 = 12 \<or> day mod 100 = 13 then ''th''
      else if day mod 10 = 1 then ''st''
      else if day mod 10 = 2 then ''nd''
      else if day mod 10 = 3 then ''rd''
      else ''th'')"

section \<open>Platform: the ECMAScript runtime the widgets call\<close>

text \<open>
  The widgets call the host's \<open>Date\<close>, \<open>Intl\<close> and \<open>navigator\<close>. None of it is code of
  the repository, so the runtime is a parameter of the model: a record of the primitives
  the source calls. An instant is a time value (milliseconds since the epoch); the model
  has no invalid \<open>Date\<close>. A formatter object is its \<open>formatToParts\<close> method, a list of
  \<open>(type, value)\<close> pairs for an instant.
\<close>

datatype error = RangeError | TypeError

datatype Style = Numeric | TwoDigit | Short | Long | Narrow

datatype HourCycle = Cycle_h12 | Cycle_h23

text \<open>\<open>Intl.DateTimeFormatOptions\<close>, the properties the source sets; \<open>None\<close> is \<open>undefined\<close>.\<close>

record DateTimeFormatOptions =
  opt_timeZone :: "string option"
  opt_hourCycle :: "HourCycle option"
  opt_year :: "Style option"
  opt_month :: "Style option"
  opt_day :: "Style option"
  opt_weekday :: "Style option"
  opt_hour :: "Style option"
  opt_minute :: "Style option"
  opt_second :: "Style option"

definition noOptions :: DateTimeFormatOptions where
  "noOptions = \<lparr>opt_timeZone = None, opt_hourCycle = None, opt_year = None, opt_month = None,
     opt_day = None, opt_weekday = None, opt_hour = None, opt_minute = None, opt_second = None\<rparr>"

type_synonym DateTimeFormat = "int \<Rightarrow> (string \<times> string) list"

record Platform =
  navigatorLanguage :: "string option"
  getCanonicalLocales :: "string list \<Rightarrow> error + string list"
  newDateTimeFormat :: "string option \<Rightarrow> DateTimeFormatOptions \<Rightarrow> error + DateTimeFormat"
  localTZA :: "int \<Rightarrow> int"

text \<open>
  \<open>navigatorLanguage\<close> is \<open>None\<close> when \<open>navigator\<close> is undefined. \<open>getCanonicalLocales\<close>
  and \<open>newDateTimeFormat\<close> (the constructor \<open>new Intl.DateTimeFormat(locale, options)\<close>)
  throw by returning \<open>Inl\<close>. \<open>localTZA\<close> is the offset in milliseconds of the host's own
  time zone at an instant.

  The \<open>Date\<close> getters of ECMAScript read the instant in the host's time zone:
  \<open>getDate\<close> is \<open>DateFromTime(LocalTime(t))\<close>, and so on. The day of the month of a day
  number follows from the proleptic Gregorian calendar.
\<close>

definition civil_from_days :: "int \<Rightarrow> int \<times> int \<times> int" where
  "civil_from_days z0 =
     (let z = z0 + 719468;
          era = z div 146097;
          doe = z - era * 146097;
          yoe = (doe - doe div 1460 + doe div 36524 - doe div 146096) div 365;
          doy = doe - (365 * yoe + yoe div 4 - yoe div 100);
          mp = (5 * doy + 2) div 153;
          d = doy - (153 * mp + 2) div 5 + 1;
          m = (if mp < 10 then mp + 3 else mp - 9);
          y = yoe + era * 400
      in (if m \<le> 2 then y + 1 else y, m, d))"

definition msPerDay :: int where
  "msPerDay = 86400000"

definition YearFromTime :: "int \<Rightarrow> int" where
  "YearFromTime t = fst (civil_from_days (t div msPerDay))"

definition MonthFromTime :: "int \<Rightarrow> int" where
  "MonthFromTime t = fst (snd (civil_from_days (t div msPerDay)))"

definition DateFromTime :: "int \<Rightarrow> int" where
  "DateFromTime t = snd (snd (civil_from_days (t div msPerDay)))"

definition WeekDay :: "int \<Rightarrow> int" where
  "WeekDay t = (t div msPerDay + 4) mod 7"

definition HourFromTime :: "int \<Rightarrow> int" where
  "HourFromTime t = (t div 3600000) mod 24"

definition MinFromTime :: "int \<Rightarrow> int" where
  "MinFromTime t = (t div 60000) mod 60"

definition SecFromTime :: "int \<Rightarrow> int" where
  "SecFromTime t = (t div 1000) mod 60"

definition msFromTime :: "int \<Rightarrow> int" where
  "msFromTime t = t mod 1000"

definition LocalTime :: "Platform \<Rightarrow> int \<Rightarrow> int" where
  "LocalTime P t = t + localTZA P t"

definition getDate :: "Platform \<Rightarrow> int \<Rightarrow> int" where
  "getDate P t = DateFromTime (LocalTime P t)"

definition getHours :: "Platform \<Rightarrow> int \<Rightarrow> int" where
  "getHours P t = HourFromTime (LocalTime P t)"

definition getMilliseconds :: "Platform \<Rightarrow> int \<Rightarrow> int" where
  "getMilliseconds P t = msFromTime (LocalTime P t)"

section \<open>helpers.ts: the locale\<close>

text \<open>
  \<open>getLocale\<close> (helpers.ts):
  \<^verbatim>\<open>
  let lang = inputLocale || (typeof navigator !== "undefined" ? navigator.language : "en-US");
  let locale = undefined;
  try { locale = Intl.getCanonicalLocales([lang])[0]; } catch { }
  return locale;
  \<close>
  \<open>inputLocale || x\<close> takes \<open>x\<close> for \<open>undefined\<close> and for the empty string. Indexing an
  empty array gives \<open>undefined\<close>. The result is a sum so that an exception leaving the
  function would be a value \<open>Inl\<close>.
\<close>

definition chosenLang :: "Platform \<Rightarrow> string option \<Rightarrow> string" where
  "chosenLang P inputLocale =
     (case inputLocale of
        Some l \<Rightarrow> if l \<noteq> [] then l
                  else (case navigatorLanguage P of Some n \<Rightarrow> n | None \<Rightarrow> ''en-US'')
      | None \<Rightarrow> (case navigatorLanguage P of Some n \<Rightarrow> n | None \<Rightarrow> ''en-US''))"

definition tryCatch :: "error + 'a \<Rightarrow> (error \<Rightarrow> error + 'a) \<Rightarrow> error + 'a" where
  "tryCatch body handler = (case body of Inl e \<Rightarrow> handler e | Inr v \<Rightarrow> Inr v)"

definition firstElement :: "'a list \<Rightarrow> 'a option" where
  "firstElement xs = (case xs of [] \<Rightarrow> None | x # _ \<Rightarrow> Some x)"

definition getLocale :: "Platform \<Rightarrow> string option \<Rightarrow> error + string option" where
  "getLocale P inputLocale =
     (let lang = chosenLang P inputLocale in
      tryCatch
        (case getCanonicalLocales P [lang] of
           Inl e \<Rightarrow> Inl e
         | Inr ls \<Rightarrow> Inr (firstElement ls))
        (\<lambda>e. Inr None))"

section \<open>DateText: presets, formatter and composer\<close>

datatype DatePartKey = PYear | PMonth | PDay | PWeekday

text \<open>An element of a sequence: a part token (a string in the source) or \<open>{ sep }\<close>.\<close>

datatype Token = Part DatePartKey | Sep string

datatype Preset =
    weekday | weekday_short | day_numeric | day_ordinal | month_long | month_short
  | month_day_ordinal | weekday_month_day_ordinal | month_day_year | month_day_year_ordinal
  | weekday_month_day | weekday_month_day_year | dmy_slash | ymd_slash | mdy_slash | iso
  | ymd_dot | dmy_dot | full_long | weekday_day_ordinal | weekday_month_day_year_ordinal
  | iso_with_weekday | custom

record PresetDef =
  def_label :: string
  def_description :: string
  def_order :: "Token list"
  def_options :: DateTimeFormatOptions
  def_dayOrdinal :: "bool option"

text \<open>The option objects of the table \<open>PRESETS\<close>, by the properties they set.\<close>

definition options_of ::
  "Style option \<Rightarrow> Style option \<Rightarrow> Style option \<Rightarrow> Style option \<Rightarrow> DateTimeFormatOptions" where
  "options_of wd mo dy yr = noOptions\<lparr>opt_weekday := wd, opt_month := mo, opt_day := dy, opt_year := yr\<rparr>"

fun PRESETS :: "Preset \<Rightarrow> PresetDef" where
  "PRESETS weekday = \<lparr>def_label = ''Weekday (Long)'', def_description = ''Monday'',
     def_order = [Part PWeekday],
     def_options = options_of (Some Long) None None None, def_dayOrdinal = None\<rparr>"
| "PRESETS weekday_short = \<lparr>def_label = ''Weekday (Short)'', def_description = ''Mon'',
     def_order = [Part PWeekday],
     def_options = options_of (Some Short) None None None, def_dayOrdinal = None\<rparr>"
| "PRESETS day_numeric = \<lparr>def_label = ''Day (Numeric)'', def_description = ''3'',
     def_order = [Part PDay],
     def_options = options_of None None (Some Numeric) None, def_dayOrdinal = None\<rparr>"
| "PRESETS day_ordinal = \<lparr>def_label = ''Day (Ordinal)'', def_description = ''3rd'',
     def_order = [Part PDay],
     def_options = options_of None None (Some Numeric) None, def_dayOrdinal = Some True\<rparr>"
| "PRESETS month_long = \<lparr>def_label = ''Month (Long)'', def_description = ''November'',
     def_order = [Part PMonth],
     def_options = options_of None (Some Long) None None, def_dayOrdinal = None\<rparr>"
| "PRESETS month_short = \<lparr>def_label = ''Month (Short)'', def_description = ''Nov'',
     def_order = [Part PMonth],
     def_options = options_of None (Some Short) None None, def_dayOrdinal = None\<rparr>"
| "PRESETS month_day_ordinal = \<lparr>def_label = ''Month Day Ordinal'',
     def_description = ''November 3rd'',
     def_order = [Part PMonth, Part PDay],
     def_options = options_of None (Some Long) (Some Numeric) None, def_dayOrdinal = Some True\<rparr>"
| "PRESETS weekday_month_day_ordinal = \<lparr>def_label = ''Weekday, Month Day Ordinal'',
     def_description = ''Monday, November 3rd'',
     def_order = [Part PWeekday, Sep '', '', Part PMonth, Part PDay],
     def_options = options_of (Some Long) (Some Long) (Some Numeric) None,
     def_dayOrdinal = Some True\<rparr>"
| "PRESETS month_day_year = \<lparr>def_label = ''Month Day Year'',
     def_description = ''October 20 2025'',
     def_order = [Part PMonth, Part PDay, Part PYear],
     def_options = options_of None (Some Long) (Some Numeric) (Some Numeric),
     def_dayOrdinal = None\<rparr>"
| "PRESETS month_day_year_ordinal = \<lparr>def_label = ''Month Day Year Ordinal'',
     def_description = ''November 3rd 2025'',
     def_order = [Part PMonth, Part PDay, Part PYear],
     def_options = options_of None (Some Long) (Some Numeric) (Some Numeric),
     def_dayOrdinal = Some True\<rparr>"
| "PRESETS weekday_month_day = \<lparr>def_label = ''Weekday Month Day'',
     def_description = ''Mon Oct 20'',
     def_order = [Part PWeekday, Part PMonth, Part PDay],
     def_options = options_of (Some Short) (Some Short) (Some Numeric) None,
     def_dayOrdinal = None\<rparr>"
| "PRESETS weekday_month_day_year = \<lparr>def_label = ''Weekday Month Day Year'',
     def_description = ''Mon Oct 20 2025'',
     def_order = [Part PWeekday, Part PMonth, Part PDay, Part PYear],
     def_options = options_of (Some Short) (Some Short) (Some Numeric) (Some Numeric),
     def_dayOrdinal = None\<rparr>"
| "PRESETS dmy_slash = \<lparr>def_label = ''D/M/Y Slashes'', def_description = ''20/10/2025'',
     def_order = [Part PDay, Sep ''/'', Part PMonth, Sep ''/'', Part PYear],
     def_options = options_of None (Some TwoDigit) (Some TwoDigit) (Some Numeric),
     def_dayOrdinal = None\<rparr>"
| "PRESETS ymd_slash = \<lparr>def_label = ''Y/M/D Slashes'', def_description = ''2025/10/20'',
     def_order = [Part PYear, Sep ''/'', Part PMonth, Sep ''/'', Part PDay],
     def_options = options_of None (Some TwoDigit) (Some TwoDigit) (Some Numeric),
     def_dayOrdinal = None\<rparr>"
| "PRESETS mdy_slash = \<lparr>def_label = ''M/D/Y Slashes'', def_description = ''10/20/2025'',
     def_order = [Part PMonth, Sep ''/'', Part PDay, Sep ''/'', Part PYear],
     def_options = options_of None (Some TwoDigit) (Some TwoDigit) (Some Numeric),
     def_dayOrdinal = None\<rparr>"
| "PRESETS iso = \<lparr>def_label = ''ISO (Date)'', def_description = ''2025-10-20'',
     def_order = [Part PYear, Sep ''-'', Part PMonth, Sep ''-'', Part PDay],
     def_options = options_of None (Some TwoDigit) (Some TwoDigit) (Some Numeric),
     def_dayOrdinal = None\<rparr>"
| "PRESETS ymd_dot = \<lparr>def_label = ''Y.M.D Dots'', def_description = ''2025.10.20'',
     def_order = [Part PYear, Sep ''.'', Part PMonth, Sep ''.'', Part PDay],
     def_options = options_of None (Some TwoDigit) (Some TwoDigit) (Some Numeric),
     def_dayOrdinal = None\<rparr>"
| "PRESETS dmy_dot = \<lparr>def_label = ''D.M.Y Dots'', def_description = ''20.10.2025'',
     def_order = [Part PDay, Sep ''.'', Part PMonth, Sep ''.'', Part PYear],
     def_options = options_of None (Some TwoDigit) (Some TwoDigit) (Some Numeric),
     def_dayOrdinal = None\<rparr>"
| "PRESETS full_long = \<lparr>def_label = ''Full Long'',
     def_description = ''Monday, October 20, 2025'',
     def_order = [Part PWeekday, Sep '', '', Part PMonth, Part PDay, Sep '', '', Part PYear],
     def_options = options_of (Some Long) (Some Long) (Some Numeric) (Some Numeric),
     def_dayOrdinal = None\<rparr>"
| "PRESETS weekday_day_ordinal = \<lparr>def_label = ''Weekday Day Ordinal'',
     def_description = ''Saturday 20th'',
     def_order = [Part PWeekday, Part PDay],
     def_options = options_of (Some Long) None (Some Numeric) None, def_dayOrdinal = Some True\<rparr>"
| "PRESETS weekday_month_day_year_ordinal = \<lparr>def_label = ''Weekday Month Day Year Ordinal'',
     def_description = ''Monday November 3rd 2025'',
     def_order = [Part PWeekday, Part PMonth, Part PDay, Part PYear],
     def_options = options_of (Some Long) (Some Long) (Some Numeric) (Some Numeric),
     def_dayOrdinal = Some True\<rparr>"
| "PRESETS iso_with_weekday = \<lparr>def_label = ''Weekday ISO'',
     def_description = ''Mon 2025-10-20'',
     def_order = [Part PWeekday, Sep '' '', Part PYear, Sep ''-'', Part PMonth, Sep ''-'', Part PDay],
     def_options = options_of (Some Short) (Some TwoDigit) (Some TwoDigit) (Some Numeric),
     def_dayOrdinal = None\<rparr>"
| "PRESETS custom = \<lparr>def_label = ''Custom'', def_description = ''Controlled by toggles below'',
     def_order = [], def_options = noOptions, def_dayOrdinal = None\<rparr>"

datatype DayFormat = DayTwoDigit | DayNumeric | DayOrdinal

datatype SeparatorStyle = SepSpace | SepSlash | SepDash | SepCommaSpace

text \<open>
  \<open>DateProps["format"]\<close>; the fields carry the prefix \<open>fmt_\<close>. All but the preset are
  optional in the source. The preset is one of the keys of \<open>PRESETS\<close>, as the type
  \<open>keyof typeof PRESETS\<close> and the preset field of the widget (a select over
  \<open>Object.keys(PRESETS)\<close>) have it.
\<close>

record DateFormat =
  fmt_preset :: Preset
  fmt_year :: "bool option"
  fmt_yearFormat :: "Style option"
  fmt_month :: "bool option"
  fmt_monthFormat :: "Style option"
  fmt_day :: "bool option"
  fmt_dayFormat :: "DayFormat option"
  fmt_weekday :: "bool option"
  fmt_weekdayFormat :: "Style option"
  fmt_separatorStyle :: "SeparatorStyle option"

text \<open>Truthiness of an optional boolean.\<close>

definition truthy :: "bool option \<Rightarrow> bool" where
  "truthy b = (b = Some True)"

text \<open>
  Object spread \<open>{ timeZone: timezone, ...options }\<close>: a property of \<open>options\<close> wins
  over the one written before it.
\<close>

definition orElse :: "'a option \<Rightarrow> 'a option \<Rightarrow> 'a option" where
  "orElse later earlier = (case later of Some v \<Rightarrow> Some v | None \<Rightarrow> earlier)"

definition spreadOver :: "DateTimeFormatOptions \<Rightarrow> DateTimeFormatOptions \<Rightarrow> DateTimeFormatOptions" where
  "spreadOver base over =
     \<lparr>opt_timeZone = orElse (opt_timeZone over) (opt_timeZone base),
      opt_hourCycle = orElse (opt_hourCycle over) (opt_hourCycle base),
      opt_year = orElse (opt_year over) (opt_year base),
      opt_month = orElse (opt_month over) (opt_month base),
      opt_day = orElse (opt_day over) (opt_day base),
      opt_weekday = orElse (opt_weekday over) (opt_weekday base),
      opt_hour = orElse (opt_hour over) (opt_hour base),
      opt_minute = orElse (opt_minute over) (opt_minute base),
      opt_second = orElse (opt_second over) (opt_second base)\<rparr>"

text \<open>The options \<open>buildFormatter\<close> (lines 204-215) hands to the constructor.\<close>

definition formatterOptions :: "string option \<Rightarrow> DateFormat \<Rightarrow> DateTimeFormatOptions" where
  "formatterOptions timezone f =
     (if fmt_preset f \<noteq> custom
      then spreadOver (noOptions\<lparr>opt_timeZone := timezone\<rparr>) (def_options (PRESETS (fmt_preset f)))
      else
        (let opts0 = noOptions\<lparr>opt_timeZone := timezone\<rparr>;
             opts1 = (if truthy (fmt_year f) \<and> fmt_yearFormat f \<noteq> None
                      then opts0\<lparr>opt_year := fmt_yearFormat f\<rparr> else opts0);
             opts2 = (if truthy (fmt_month f) \<and> fmt_monthFormat f \<noteq> None
                      then opts1\<lparr>opt_month := fmt_monthFormat f\<rparr> else opts1);
             opts3 = (if truthy (fmt_day f) \<and> fmt_dayFormat f \<noteq> None
                         \<and> fmt_dayFormat f \<noteq> Some DayOrdinal
                      then opts2\<lparr>opt_day :=
                             (if fmt_dayFormat f = Some DayTwoDigit then Some TwoDigit
                              else Some Numeric)\<rparr>
                      else opts2);
             opts4 = (if truthy (fmt_weekday f) \<and> fmt_weekdayFormat f \<noteq> None
                      then opts3\<lparr>opt_weekday := fmt_weekdayFormat f\<rparr> else opts3)
         in opts4))"

definition buildFormatter ::
  "Platform \<Rightarrow> string option \<Rightarrow> string option \<Rightarrow> DateFormat \<Rightarrow> error + DateTimeFormat" where
  "buildFormatter P locale timezone f = newDateTimeFormat P locale (formatterOptions timezone f)"

text \<open>\<open>extractParts\<close> of DateText (lines 217-223): the last part of a type wins.\<close>

definition datePartKey :: "string \<Rightarrow> DatePartKey option" where
  "datePartKey ty =
     (if ty = ''year'' then Some PYear
      else if ty = ''month'' then Some PMonth
      else if ty = ''day'' then Some PDay
      else if ty = ''weekday'' then Some PWeekday
      else None)"

definition extractParts_DateText :: "int \<Rightarrow> DateTimeFormat \<Rightarrow> (DatePartKey \<rightharpoonup> string)" where
  "extractParts_DateText d fmt =
     fold (\<lambda>p out. case datePartKey (fst p) of Some k \<Rightarrow> out(k \<mapsto> snd p) | None \<Rightarrow> out)
       (fmt d) Map.empty"

definition sepMap :: "SeparatorStyle \<Rightarrow> string" where
  "sepMap s = (case s of SepSpace \<Rightarrow> '' '' | SepSlash \<Rightarrow> ''/'' | SepDash \<Rightarrow> ''-''
               | SepCommaSpace \<Rightarrow> '', '')"

text \<open>
  The loop of \<open>buildSequence\<close>:
  \<^verbatim>\<open>order.forEach((part, idx) => { seq.push(part); if (idx < order.length - 1) seq.push({ sep }); })\<close>
  with the parts still to visit, the index of the first of them and \<open>order.length\<close>.
\<close>

fun pushParts :: "string \<Rightarrow> int \<Rightarrow> DatePartKey list \<Rightarrow> int \<Rightarrow> Token list \<Rightarrow> Token list" where
  "pushParts sep n [] idx seq = seq"
| "pushParts sep n (part # rest) idx seq =
     pushParts sep n rest (idx + 1)
       (if idx < n - 1 then seq @ [Part part, Sep sep] else seq @ [Part part])"

definition customOrder :: "DateFormat \<Rightarrow> DatePartKey list" where
  "customOrder f =
     (if truthy (fmt_weekday f) then [PWeekday] else [])
     @ (if truthy (fmt_month f) then [PMonth] else [])
     @ (if truthy (fmt_day f) then [PDay] else [])
     @ (if truthy (fmt_year f) then [PYear] else [])"

definition chosenSep :: "DateFormat \<Rightarrow> string" where
  "chosenSep f = sepMap (case fmt_separatorStyle f of Some s \<Rightarrow> s | None \<Rightarrow> SepSpace)"

text \<open>\<open>buildSequence\<close> (lines 225-238).\<close>

definition buildSequence :: "DateFormat \<Rightarrow> Token list" where
  "buildSequence f =
     (if fmt_preset f \<noteq> custom then def_order (PRESETS (fmt_preset f))
      else
        (let sep = chosenSep f; order = customOrder f in
         if length order \<le> 1 then map Part order
         else pushParts sep (int (length order)) order 0 []))"

text \<open>The condition under which the composer and the tick replace the day.\<close>

definition dayIsOrdinal :: "DateFormat \<Rightarrow> bool" where
  "dayIsOrdinal f =
     ((fmt_preset f = custom \<and> truthy (fmt_day f) \<and> fmt_dayFormat f = Some DayOrdinal)
      \<or> (fmt_preset f \<noteq> custom \<and> truthy (def_dayOrdinal (PRESETS (fmt_preset f)))))"

text \<open>
  The callback of \<open>seq.forEach\<close> in \<open>composePreview\<close>, on the pair of \<open>out\<close> and
  \<open>lastWasPart\<close>; \<open>raw[token] || ''\<close> is empty for a missing part.
\<close>

definition previewStep ::
  "(DatePartKey \<rightharpoonup> string) \<Rightarrow> Token \<Rightarrow> string \<times> bool \<Rightarrow> string \<times> bool" where
  "previewStep raw token acc =
     (case token of
        Part k \<Rightarrow>
          (let v = (case raw k of Some s \<Rightarrow> s | None \<Rightarrow> []);
               out = (if snd acc \<and> length (fst acc) > 0 then fst acc @ '' '' else fst acc)
           in (out @ v, True))
      | Sep s \<Rightarrow> (fst acc @ s, False))"

text \<open>\<open>composePreview\<close> (lines 244-265).\<close>

definition composePreview ::
  "Platform \<Rightarrow> int \<Rightarrow> string option \<Rightarrow> string option \<Rightarrow> DateFormat \<Rightarrow> error + string" where
  "composePreview P date locale timezone format =
     (case buildFormatter P locale timezone format of
        Inl e \<Rightarrow> Inl e
      | Inr fmt \<Rightarrow>
          (let raw0 = extractParts_DateText date fmt;
               raw = (if dayIsOrdinal format
                      then raw0(PDay \<mapsto> getOrdinalSuffix (getDate P date)) else raw0);
               seq = buildSequence format
           in Inr (fst (fold (previewStep raw) seq ([], False)))))"

text \<open>
  \<open>tick\<close> in \<open>Render\<close> of DateText (lines 276-286), with \<open>now\<close> the reading of the
  clock; its result is the value handed to \<open>setParts\<close>.
\<close>

definition tick_DateText ::
  "Platform \<Rightarrow> int \<Rightarrow> DateTimeFormat \<Rightarrow> DateFormat \<Rightarrow> (DatePartKey \<rightharpoonup> string)" where
  "tick_DateText P now fmt format =
     (let extracted = extractParts_DateText now fmt in
      if dayIsOrdinal format
      then extracted(PDay \<mapsto> getOrdinalSuffix (getDate P now)) else extracted)"

section \<open>Digital clock: units shown\<close>

datatype UnitKey = UYear | UMonth | UDay | UHour | UMinute | USecond | UHoursAmPm

datatype HourFormat = H12 | H24

datatype AmPmFormat = AmPmDefault | AmPmScaled

datatype AmPmPosition = PosTop | PosCenter | PosBottom

text \<open>
  \<open>DigitalClockProps["show"]\<close>. The fields are prefixed with \<open>show_\<close>: the
  DateText format below has fields of the same names. Optional fields are options,
  \<open>None\<close> being \<open>undefined\<close>. The only year format of the source is \<open>"2-digit"\<close>.
\<close>

record ShowConfig =
  show_hourFormat :: HourFormat
  show_year :: bool
  show_yearFormat :: "Style option"
  show_month :: bool
  show_monthFormat :: "Style option"
  show_day :: bool
  show_dayFormat :: "Style option"
  show_hour :: bool
  show_minute :: bool
  show_second :: bool
  show_hours_am_pm :: bool
  show_hoursAmPmFormat :: "AmPmFormat option"
  show_hoursAmPmPosition :: "AmPmPosition option"

definition ORDERED_UNITS :: "UnitKey list" where
  "ORDERED_UNITS = [UYear, UMonth, UDay, UHour, UMinute, USecond, UHoursAmPm]"

text \<open>The property read \<open>show[k]\<close> for a unit key.\<close>

fun show_field :: "ShowConfig \<Rightarrow> UnitKey \<Rightarrow> bool" where
  "show_field s UYear = show_year s"
| "show_field s UMonth = show_month s"
| "show_field s UDay = show_day s"
| "show_field s UHour = show_hour s"
| "show_field s UMinute = show_minute s"
| "show_field s USecond = show_second s"
| "show_field s UHoursAmPm = show_hours_am_pm s"

definition enabledUnits :: "ShowConfig \<Rightarrow> UnitKey list" where
  "enabledUnits s =
     filter (\<lambda>k. if k = UHoursAmPm then show_hours_am_pm s \<and> show_hourFormat s = H12
                 else show_field s k) ORDERED_UNITS"

text \<open>\<open>pad2\<close> and \<open>isWeekdayFormat\<close> (lines 161-165).\<close>

definition pad2 :: "string \<Rightarrow> string" where
  "pad2 v = (if length v = 1 then CHR ''0'' # v else v)"

definition isWeekdayFormat :: "Style option \<Rightarrow> bool" where
  "isWeekdayFormat f = (f = Some Short \<or> f = Some Long \<or> f = Some Narrow)"

text \<open>The options \<open>buildDateFormatter\<close> (lines 176-207) hands to the constructor.\<close>

definition dateFormatterOptions :: "string option \<Rightarrow> ShowConfig \<Rightarrow> DateTimeFormatOptions" where
  "dateFormatterOptions timezone s =
     (let hourFormat = show_hourFormat s;
          yearOpt = (if show_year s then orElse (show_yearFormat s) (Some TwoDigit) else None);
          monthOpt = (if show_month s then orElse (show_monthFormat s) (Some TwoDigit) else None);
          dayIsWeekday = (show_day s \<and> isWeekdayFormat (show_dayFormat s));
          dayOpt = (if show_day s
                    then (if show_dayFormat s = Some TwoDigit then Some TwoDigit else None)
                    else None);
          weekdayOpt = (if dayIsWeekday \<and> isWeekdayFormat (show_dayFormat s)
                        then show_dayFormat s else None)
      in \<lparr>opt_timeZone = timezone,
          opt_hourCycle = Some (if hourFormat = H24 then Cycle_h23 else Cycle_h12),
          opt_year = yearOpt,
          opt_month = monthOpt,
          opt_day = dayOpt,
          opt_weekday = weekdayOpt,
          opt_hour = (if show_hour s then Some TwoDigit else None),
          opt_minute = (if show_minute s then Some TwoDigit else None),
          opt_second = (if show_second s then Some TwoDigit else None)\<rparr>)"

definition buildDateFormatter ::
  "Platform \<Rightarrow> string option \<Rightarrow> string option \<Rightarrow> ShowConfig \<Rightarrow> error + DateTimeFormat" where
  "buildDateFormatter P locale timezone s = newDateTimeFormat P locale (dateFormatterOptions timezone s)"

text \<open>
  \<open>extractParts\<close> of the digital clock (lines 209-228). The keys it writes are the unit
  keys; a weekday is stored under \<open>day\<close> and a day period under \<open>hours_am_pm\<close>.
\<close>

definition unitPartKey :: "string \<Rightarrow> UnitKey option" where
  "unitPartKey ty =
     (if ty = ''year'' then Some UYear
      else if ty = ''month'' then Some UMonth
      else if ty = ''day'' then Some UDay
      else if ty = ''hour'' then Some UHour
      else if ty = ''minute'' then Some UMinute
      else if ty = ''second'' then Some USecond
      else None)"

definition extractStep :: "string \<times> string \<Rightarrow> (UnitKey \<rightharpoonup> string) \<Rightarrow> (UnitKey \<rightharpoonup> string)" where
  "extractStep p out =
     (let out1 = (case unitPartKey (fst p) of Some k \<Rightarrow> out(k \<mapsto> snd p) | None \<Rightarrow> out);
          out2 = (if fst p = ''weekday'' then out1(UDay \<mapsto> snd p) else out1);
          out3 = (if fst p = ''dayPeriod'' then out2(UHoursAmPm \<mapsto> snd p) else out2)
      in out3)"

definition extractParts_DigitalClock :: "int \<Rightarrow> DateTimeFormat \<Rightarrow> (UnitKey \<rightharpoonup> string)" where
  "extractParts_DigitalClock d fmt = fold extractStep (fmt d) Map.empty"

text \<open>\<open>parts[k] || fallback\<close>: the fallback for a missing or an empty value.\<close>

definition valueOr :: "string option \<Rightarrow> string \<Rightarrow> string" where
  "valueOr v fallback = (case v of Some s \<Rightarrow> (if s \<noteq> [] then s else fallback) | None \<Rightarrow> fallback)"

text \<open>
  The value of one unit: the statements of lines 247-266 in \<open>buildInitialSections\<close>,
  which \<open>applyTick\<close> repeats word for word at lines 282-301.
\<close>

definition unitValue :: "Platform \<Rightarrow> ShowConfig \<Rightarrow> (UnitKey \<rightharpoonup> string) \<Rightarrow> int \<Rightarrow> UnitKey \<Rightarrow> string" where
  "unitValue P s parts now k =
     (let val0 = (if k = UHoursAmPm
                  then valueOr (parts k) (if getHours P now < 12 then ''AM'' else ''PM'')
                  else valueOr (parts k) []);
          val1 = (if k = UMonth \<and> show_month s
                     \<and> (show_monthFormat s = None \<or> show_monthFormat s = Some TwoDigit)
                     \<and> length val0 = 1
                  then pad2 val0 else val0);
          val2 = (if k = UDay \<and> show_day s \<and> show_dayFormat s = Some TwoDigit \<and> length val1 = 1
                  then pad2 val1 else val1);
          val3 = (if (k = UHour \<or> k = UMinute \<or> k = USecond) \<and> length val2 = 1
                  then pad2 val2 else val2)
      in val3)"

text \<open>\<open>val.split("")\<close>: the code units, each a string of its own.\<close>

definition splitChars :: "string \<Rightarrow> string list" where
  "splitChars v = map (\<lambda>c. [c]) v"

definition buildInitialSections ::
  "Platform \<Rightarrow> int \<Rightarrow> UnitKey list \<Rightarrow> ShowConfig \<Rightarrow> DateTimeFormat \<Rightarrow> (UnitKey \<times> string list) list" where
  "buildInitialSections P now enabled s fmt =
     (let parts = extractParts_DigitalClock now fmt in
      map (\<lambda>k. (k, splitChars (unitValue P s parts now k))) enabled)"

section \<open>Digital clock: digit updaters\<close>

text \<open>\<open>Digit = number | string\<close>; \<open>===\<close> on digits is equality of the values.\<close>

datatype Digit = DNum int | DStr string

definition String :: "Digit \<Rightarrow> string" where
  "String d = (case d of DNum n \<Rightarrow> string_of_int n | DStr s \<Rightarrow> s)"

record UpdateOpts =
  immediate :: "bool option"

definition isImmediate :: "UpdateOpts option \<Rightarrow> bool" where
  "isImmediate opts = (case opts of None \<Rightarrow> False | Some o1 \<Rightarrow> truthy (immediate o1))"

text \<open>
  A flip digit: the two refs holding digits, the text of the four elements (\<open>None\<close> for
  a ref that is \<open>null\<close>) and the class list of the card.
\<close>

record FlipDigit =
  currentRef :: Digit
  nextRef :: Digit
  nextAboveEl :: "string option"
  currentBelowEl :: "string option"
  frontEl :: "string option"
  backEl :: "string option"
  cardClasses :: "string list"

text \<open>\<open>if (ref.current) ref.current.textContent = v\<close>.\<close>

definition setText :: "string \<Rightarrow> string option \<Rightarrow> string option" where
  "setText v el = (case el of None \<Rightarrow> None | Some old \<Rightarrow> Some v)"

definition classList_add :: "string \<Rightarrow> string list \<Rightarrow> string list" where
  "classList_add c cs = (if c \<in> set cs then cs else cs @ [c])"

definition classList_remove :: "string \<Rightarrow> string list \<Rightarrow> string list" where
  "classList_remove c cs = filter (\<lambda>x. x \<noteq> c) cs"

text \<open>\<open>updateDigit\<close> and \<open>handleTransitionEnd\<close> of \<open>FlipDigit\<close> (lines 72-99).\<close>

definition updateDigit :: "Digit \<Rightarrow> UpdateOpts option \<Rightarrow> FlipDigit \<Rightarrow> FlipDigit" where
  "updateDigit next opts st =
     (if next = currentRef st then st
      else if isImmediate opts then
        st\<lparr>currentRef := next, nextRef := next,
           nextAboveEl := setText (String next) (nextAboveEl st),
           backEl := setText (String next) (backEl st),
           currentBelowEl := setText (String next) (currentBelowEl st),
           frontEl := setText (String next) (frontEl st)\<rparr>
      else
        st\<lparr>nextRef := next,
           nextAboveEl := setText (String next) (nextAboveEl st),
           backEl := setText (String next) (backEl st),
           cardClasses := classList_add ''ha-dc__flipped'' (cardClasses st)\<rparr>)"

definition handleTransitionEnd :: "FlipDigit \<Rightarrow> FlipDigit" where
  "handleTransitionEnd st =
     st\<lparr>currentRef := nextRef st,
        currentBelowEl := setText (String (nextRef st)) (currentBelowEl st),
        frontEl := setText (String (nextRef st)) (frontEl st),
        cardClasses := classList_remove ''ha-dc__flipped'' (cardClasses st)\<rparr>"

text \<open>
  The updater of a span in digital mode (lines 421-428), on the \<open>textContent\<close> of the
  element.
\<close>

definition spanUpdater :: "Digit \<Rightarrow> UpdateOpts option \<Rightarrow> string \<Rightarrow> string" where
  "spanUpdater next opts textContent =
     (if isImmediate opts then String next
      else if textContent \<noteq> String next then String next
      else textContent)"

text \<open>
  \<open>applyTick\<close> (lines 271-312). The updaters registered for a unit act on the document,
  whose state is \<open>'d\<close>; \<open>updaters[idx]\<close> beyond the end of the array is \<open>undefined\<close>.
  The function returns the document and the new value of \<open>firstRunRef.current\<close>.
\<close>

type_synonym 'd DigitUpdater = "Digit \<Rightarrow> UpdateOpts option \<Rightarrow> 'd \<Rightarrow> 'd"

definition elementAt :: "'a list \<Rightarrow> nat \<Rightarrow> 'a option" where
  "elementAt xs i = (if i < length xs then Some (xs ! i) else None)"

definition tickOpts :: "bool \<Rightarrow> UpdateOpts option" where
  "tickOpts firstRun = (if firstRun then Some \<lparr>immediate = Some True\<rparr> else None)"

definition updateDigits :: "'d DigitUpdater list \<Rightarrow> bool \<Rightarrow> string list \<Rightarrow> 'd \<Rightarrow> 'd" where
  "updateDigits updaters firstRun digits doc =
     fold (\<lambda>(d, idx) dm. case elementAt updaters idx of
                            None \<Rightarrow> dm
                          | Some updater \<Rightarrow> updater (DStr d) (tickOpts firstRun) dm)
       (zip digits [0 ..< length digits]) doc"

definition applyTickUnit ::
  "Platform \<Rightarrow> ShowConfig \<Rightarrow> (UnitKey \<rightharpoonup> 'd DigitUpdater list) \<Rightarrow> bool \<Rightarrow> (UnitKey \<rightharpoonup> string) \<Rightarrow> int
     \<Rightarrow> UnitKey \<Rightarrow> 'd \<Rightarrow> 'd" where
  "applyTickUnit P s digitUpdaters firstRun parts current k doc =
     (let digits = splitChars (unitValue P s parts current k) in
      case digitUpdaters k of
        None \<Rightarrow> doc
      | Some updaters \<Rightarrow> updateDigits updaters firstRun digits doc)"

definition applyTick ::
  "Platform \<Rightarrow> UnitKey list \<Rightarrow> ShowConfig \<Rightarrow> (UnitKey \<rightharpoonup> 'd DigitUpdater list) \<Rightarrow> bool \<Rightarrow> DateTimeFormat
     \<Rightarrow> int \<Rightarrow> 'd \<Rightarrow> 'd \<times> bool" where
  "applyTick P enabled s digitUpdaters firstRun fmt current doc =
     (let parts = extractParts_DigitalClock current fmt in
      (fold (applyTickUnit P s digitUpdaters firstRun parts current) enabled doc, False))"

section \<open>Timers of the widgets\<close>

text \<open>
  The window's table of active timers, restricted to the timers of one widget instance.
  \<open>setInterval\<close> and \<open>setTimeout\<close> return a fresh handle greater than zero;
  \<open>clearInterval\<close> and \<open>clearTimeout\<close> remove the timer of a handle from the one
  table and do nothing for a handle that is not active. A timer records the effect run
  whose closure its callback is.
\<close>

datatype TimerKind = IntervalTimer | TimeoutTimer

record Timer =
  handle :: nat
  kind :: TimerKind
  delay :: int
  run :: nat

record TimerTable =
  issued :: nat
  active :: "Timer list"

definition setTimer :: "TimerKind \<Rightarrow> int \<Rightarrow> nat \<Rightarrow> TimerTable \<Rightarrow> nat \<times> TimerTable" where
  "setTimer k ms r tbl =
     (let h = Suc (issued tbl) in
      (h, \<lparr>issued = h, active = active tbl @ [\<lparr>handle = h, kind = k, delay = ms, run = r\<rparr>]\<rparr>))"

definition clearTimer :: "nat \<Rightarrow> TimerTable \<Rightarrow> TimerTable" where
  "clearTimer h tbl = tbl\<lparr>active := filter (\<lambda>t. handle t \<noteq> h) (active tbl)\<rparr>"

text \<open>
  React's contract for an effect: the cleanup returned by a run of the effect is called
  before the effect runs again and when the component unmounts. \<open>RunEffect\<close> is the
  mount or a change of a dependency, \<open>Fire h\<close> the browser running the callback of the
  active timer \<open>h\<close>.
\<close>

datatype Lifecycle = RunEffect | Unmount | Fire nat

text \<open>
  DateText, \<open>Render\<close> (lines 274-291): \<open>intervalRef\<close> is a ref of the instance,
  \<open>null\<close> at first; a number is truthy when it is not zero.
  \<^verbatim>\<open>
  tick();
  if (intervalRef.current) window.clearInterval(intervalRef.current);
  intervalRef.current = window.setInterval(tick, 60_000);
  return () => { if (intervalRef.current) window.clearInterval(intervalRef.current); };
  \<close>
  \<open>tick\<close> sets the parts of the component and touches no timer.
\<close>

record DateTextTimers =
  dt_table :: TimerTable
  dt_intervalRef :: "nat option"
  dt_effectActive :: bool
  dt_runs :: nat

definition clearIfSet :: "nat option \<Rightarrow> TimerTable \<Rightarrow> TimerTable" where
  "clearIfSet r tbl = (case r of None \<Rightarrow> tbl | Some h \<Rightarrow> (if h \<noteq> 0 then clearTimer h tbl else tbl))"

definition dt_effect :: "DateTextTimers \<Rightarrow> DateTextTimers" where
  "dt_effect s =
     (let tbl1 = clearIfSet (dt_intervalRef s) (dt_table s);
          (h, tbl2) = setTimer IntervalTimer 60000 (dt_runs s) tbl1
      in s\<lparr>dt_table := tbl2, dt_intervalRef := Some h, dt_runs := Suc (dt_runs s)\<rparr>)"

definition dt_cleanup :: "DateTextTimers \<Rightarrow> DateTextTimers" where
  "dt_cleanup s = s\<lparr>dt_table := clearIfSet (dt_intervalRef s) (dt_table s)\<rparr>"

definition dt_step :: "Lifecycle \<Rightarrow> DateTextTimers \<Rightarrow> DateTextTimers" where
  "dt_step ev s =
     (case ev of
        RunEffect \<Rightarrow>
          (dt_effect (if dt_effectActive s then dt_cleanup s else s))\<lparr>dt_effectActive := True\<rparr>
      | Unmount \<Rightarrow> (if dt_effectActive s then (dt_cleanup s)\<lparr>dt_effectActive := False\<rparr> else s)
      | Fire h \<Rightarrow> s)"

definition dt_init :: "nat \<Rightarrow> DateTextTimers" where
  "dt_init n = \<lparr>dt_table = \<lparr>issued = n, active = []\<rparr>, dt_intervalRef = None,
     dt_effectActive = False, dt_runs = 0\<rparr>"

text \<open>
  Digital clock, \<open>Render\<close> (lines 338-352): every run of the effect has an
  \<open>intervalRef\<close> of its own, zero at first, that the callback of its timeout sets.
  \<^verbatim>\<open>
  const delay = 1000 - (nowMs % 1000);
  const intervalRef = { current: 0 };
  const timeoutId = window.setTimeout(() => {
    tick(); intervalRef.current = window.setInterval(tick, 1000); }, delay);
  return () => { clearTimeout(timeoutId);
    if (intervalRef.current) clearInterval(intervalRef.current); };
  \<close>
  \<open>dc_cleanup\<close> holds the timeout and the run of the cleanup that is pending. A timeout
  leaves the table when it fires.
\<close>

record DigitalClockTimers =
  dc_table :: TimerTable
  dc_intervalRefs :: "nat \<Rightarrow> nat"
  dc_runs :: nat
  dc_cleanup :: "(nat \<times> nat) option"

definition dc_effect :: "int \<Rightarrow> DigitalClockTimers \<Rightarrow> DigitalClockTimers" where
  "dc_effect nowMs s =
     (let r = dc_runs s;
          (timeoutId, tbl) = setTimer TimeoutTimer (1000 - js_rem nowMs 1000) r (dc_table s)
      in s\<lparr>dc_table := tbl, dc_intervalRefs := (dc_intervalRefs s)(r := 0), dc_runs := Suc r,
           dc_cleanup := Some (timeoutId, r)\<rparr>)"

definition dc_runCleanup :: "DigitalClockTimers \<Rightarrow> DigitalClockTimers" where
  "dc_runCleanup s =
     (case dc_cleanup s of
        None \<Rightarrow> s
      | Some (timeoutId, r) \<Rightarrow>
          (let tbl1 = clearTimer timeoutId (dc_table s);
               tbl2 = (if dc_intervalRefs s r \<noteq> 0 then clearTimer (dc_intervalRefs s r) tbl1 else tbl1)
           in s\<lparr>dc_table := tbl2, dc_cleanup := None\<rparr>))"

definition dc_fire :: "nat \<Rightarrow> DigitalClockTimers \<Rightarrow> DigitalClockTimers" where
  "dc_fire h s =
     (case find (\<lambda>t. handle t = h) (active (dc_table s)) of
        None \<Rightarrow> s
      | Some t \<Rightarrow>
          (if kind t = TimeoutTimer then
             (let tbl1 = clearTimer h (dc_table s);
                  (h2, tbl2) = setTimer IntervalTimer 1000 (run t) tbl1
              in s\<lparr>dc_table := tbl2, dc_intervalRefs := (dc_intervalRefs s)(run t := h2)\<rparr>)
           else s))"

definition dc_step :: "int \<Rightarrow> Lifecycle \<Rightarrow> DigitalClockTimers \<Rightarrow> DigitalClockTimers" where
  "dc_step nowMs ev s =
     (case ev of
        RunEffect \<Rightarrow> dc_effect nowMs (dc_runCleanup s)
      | Unmount \<Rightarrow> dc_runCleanup s
      | Fire h \<Rightarrow> dc_fire h s)"

definition dc_init :: "nat \<Rightarrow> DigitalClockTimers" where
  "dc_init n = \<lparr>dc_table = \<lparr>issued = n, active = []\<rparr>, dc_intervalRefs = (\<lambda>r. 0), dc_runs = 0,
     dc_cleanup = None\<rparr>"

definition intervals :: "TimerTable \<Rightarrow> Timer list" where
  "intervals tbl = filter (\<lambda>t. kind t = IntervalTimer) (active tbl)"

definition timeouts :: "TimerTable \<Rightarrow> Timer list" where
  "timeouts tbl = filter (\<lambda>t. kind t = TimeoutTimer) (active tbl)"

section \<open>Analog clock: the initial hands\<close>

text \<open>
  A number of the source is a real or \<open>NaN\<close> (\<open>None\<close>); arithmetic on numbers is exact
  in the model, rounding is not modelled. \<open>parseInt(s, 10)\<close> skips white space, reads a
  sign and the decimal digits that follow, and is \<open>NaN\<close> without a digit.
\<close>

type_synonym number = "real option"

definition isWhiteSpace :: "char \<Rightarrow> bool" where
  "isWhiteSpace c = (c \<in> set [CHR '' '', CHR 0x09, CHR 0x0A, CHR 0x0B, CHR 0x0C, CHR 0x0D])"

definition isDigitChar :: "char \<Rightarrow> bool" where
  "isDigitChar c = (c \<in> set digitChars)"

definition digitValue :: "char \<Rightarrow> int" where
  "digitValue c = int (length (takeWhile (\<lambda>x. x \<noteq> c) digitChars))"

definition parseInt10 :: "string \<Rightarrow> int option" where
  "parseInt10 s =
     (let s1 = dropWhile isWhiteSpace s;
          neg = (s1 \<noteq> [] \<and> hd s1 = CHR ''-'');
          s2 = (if s1 \<noteq> [] \<and> (hd s1 = CHR ''-'' \<or> hd s1 = CHR ''+'') then tl s1 else s1);
          ds = takeWhile isDigitChar s2
      in if ds = [] then None
         else Some ((if neg then - 1 else 1) * foldl (\<lambda>a c. 10 * a + digitValue c) 0 ds))"

record Hands =
  hourDelay :: number
  minuteDelay :: number
  secondDelay :: number
  hourRotationStart :: number
  minuteRotationStart :: number
  secondRotationStart :: number

definition zeroHands :: Hands where
  "zeroHands = \<lparr>hourDelay = Some 0, minuteDelay = Some 0, secondDelay = Some 0,
     hourRotationStart = Some 0, minuteRotationStart = Some 0, secondRotationStart = Some 0\<rparr>"

definition ofInt :: "int option \<Rightarrow> number" where
  "ofInt i = map_option real_of_int i"

definition nadd :: "number \<Rightarrow> number \<Rightarrow> number" where
  "nadd a b = (case a of None \<Rightarrow> None | Some x \<Rightarrow> (case b of None \<Rightarrow> None | Some y \<Rightarrow> Some (x + y)))"

definition ntimes :: "number \<Rightarrow> real \<Rightarrow> number" where
  "ntimes a c = map_option (\<lambda>x. x * c) a"

definition nover :: "number \<Rightarrow> real \<Rightarrow> number" where
  "nover a c = map_option (\<lambda>x. x / c) a"

definition nneg :: "number \<Rightarrow> number" where
  "nneg a = map_option uminus a"

text \<open>\<open>parts.find((p) => p.type === ty)?.value || "0"\<close>.\<close>

definition partValue :: "(string \<times> string) list \<Rightarrow> string \<Rightarrow> string" where
  "partValue parts ty = valueOr (map_option snd (find (\<lambda>p. fst p = ty) parts)) ''0''"

definition analogOptions :: "string \<Rightarrow> DateTimeFormatOptions" where
  "analogOptions tz = noOptions\<lparr>opt_hour := Some TwoDigit, opt_minute := Some TwoDigit,
     opt_second := Some TwoDigit, opt_hourCycle := Some Cycle_h12, opt_timeZone := Some tz\<rparr>"

text \<open>Lines 70-91: the hands from the parts of the formatter and the milliseconds.\<close>

definition handsOf :: "(string \<times> string) list \<Rightarrow> int \<Rightarrow> Hands" where
  "handsOf parts ms =
     (let hour = parseInt10 (partValue parts ''hour'');
          minute = ofInt (parseInt10 (partValue parts ''minute''));
          second = ofInt (parseInt10 (partValue parts ''second''));
          secondsWithMs = nadd second (Some (real_of_int ms / 1000));
          hour12 = ofInt (map_option (\<lambda>h. js_rem h 12) hour);
          hourRotation = nadd (nadd (ntimes hour12 30) (ntimes minute 0.5)) (nover secondsWithMs 120);
          minuteRotation = nadd (ntimes minute 6) (nover secondsWithMs 10);
          secondRotation = ntimes secondsWithMs 6
      in \<lparr>hourDelay = nneg (nadd (nadd (ntimes hour12 3600) (ntimes minute 60)) secondsWithMs),
          minuteDelay = nneg (nadd (ntimes minute 60) secondsWithMs),
          secondDelay = nneg secondsWithMs,
          hourRotationStart = hourRotation,
          minuteRotationStart = minuteRotation,
          secondRotationStart = secondRotation\<rparr>)"

text \<open>
  The function given to \<open>useMemo\<close> in \<open>AnalogClockPrivate\<close> (lines 59-102), with \<open>now\<close>
  the reading of the clock. The prop \<open>timezone\<close> defaults to \<open>"user-settings"\<close>.
\<close>

definition analogInit :: "Platform \<Rightarrow> string option \<Rightarrow> string option \<Rightarrow> int \<Rightarrow> error + Hands" where
  "analogInit P locale timezone now =
     (let tz = (case timezone of None \<Rightarrow> ''user-settings'' | Some z \<Rightarrow> z) in
      tryCatch
        (case getLocale P locale of
           Inl e \<Rightarrow> Inl e
         | Inr updatedLocale \<Rightarrow>
             (case newDateTimeFormat P updatedLocale (analogOptions tz) of
                Inl e \<Rightarrow> Inl e
              | Inr formatter \<Rightarrow> Inr (handsOf (formatter now) (getMilliseconds P now))))
        (\<lambda>e. Inr zeroHands))"

section \<open>Specification-level notions\<close>

text \<open>One separator between each two neighbours of a list, none at its ends.\<close>

fun intersperse :: "'a \<Rightarrow> 'a list \<Rightarrow> 'a list" where
  "intersperse s [] = []"
| "intersperse s [x] = [x]"
| "intersperse s (x # y # ys) = x # s # intersperse s (y # ys)"


section \<open>A concrete platform\<close>

text \<open>
  A small runtime on which the definitions run: a host at a fixed offset from UTC, two
  time zones without daylight saving, language tags of letters, digits and hyphens, and a
  formatter with English names that lists the requested fields (year, month and day when
  none is requested, as \<open>Intl.DateTimeFormat\<close> does) with a literal between them.
\<close>

definition demoZoneOffset :: "string \<Rightarrow> int option" where
  "demoZoneOffset z =
     (if z = ''UTC'' then Some 0
      else if z = ''Asia/Tokyo'' then Some 32400000
      else None)"

definition demoValidTag :: "string \<Rightarrow> bool" where
  "demoValidTag tag =
     (tag \<noteq> [] \<and> list_all (\<lambda>c. c \<in> set ''abcdefghijklmnopqrstuvwxyzABCDEFGHIJKLMNOPQRSTUVWXYZ0123456789-'') tag)"

definition demoCanonicalLocales :: "string list \<Rightarrow> error + string list" where
  "demoCanonicalLocales tags = (if list_all demoValidTag tags then Inr (remdups tags) else Inl RangeError)"

definition monthNames :: "string list" where
  "monthNames = [''January'', ''February'', ''March'', ''April'', ''May'', ''June'', ''July'',
     ''August'', ''September'', ''October'', ''November'', ''December'']"

definition weekdayNames :: "string list" where
  "weekdayNames = [''Sunday'', ''Monday'', ''Tuesday'', ''Wednesday'', ''Thursday'', ''Friday'',
     ''Saturday'']"

definition styled :: "Style \<Rightarrow> int \<Rightarrow> string list \<Rightarrow> string" where
  "styled st n names =
     (case st of
        Numeric \<Rightarrow> string_of_int n
      | TwoDigit \<Rightarrow> pad2 (string_of_int (n mod 100))
      | Long \<Rightarrow> names ! nat (n mod int (length names))
      | Short \<Rightarrow> take 3 (names ! nat (n mod int (length names)))
      | Narrow \<Rightarrow> take 1 (names ! nat (n mod int (length names))))"

definition field :: "string \<Rightarrow> Style option \<Rightarrow> int \<Rightarrow> string list \<Rightarrow> (string \<times> string) list" where
  "field ty st n names = (case st of None \<Rightarrow> [] | Some s \<Rightarrow> [(ty, styled s n names)])"

definition demoParts :: "int \<Rightarrow> DateTimeFormatOptions \<Rightarrow> int \<Rightarrow> (string \<times> string) list" where
  "demoParts off opts0 t =
     (let lt = t + off;
          none = (opt_year opts0 = None \<and> opt_month opts0 = None \<and> opt_day opts0 = None
                  \<and> opt_weekday opts0 = None \<and> opt_hour opts0 = None \<and> opt_minute opts0 = None
                  \<and> opt_second opts0 = None);
          opts = (if none then opts0\<lparr>opt_year := Some Numeric, opt_month := Some Numeric,
                                     opt_day := Some Numeric\<rparr> else opts0);
          h12 = (opt_hourCycle opts \<noteq> Some Cycle_h23);
          hr = (if h12 then (if HourFromTime lt mod 12 = 0 then 12 else HourFromTime lt mod 12)
                else HourFromTime lt)
      in intersperse (''literal'', '' '')
           (field ''weekday'' (opt_weekday opts) (WeekDay lt) weekdayNames
            @ field ''month'' (opt_month opts)
                (if opt_month opts = Some Numeric \<or> opt_month opts = Some TwoDigit
                 then MonthFromTime lt else MonthFromTime lt - 1) monthNames
            @ field ''day'' (opt_day opts) (DateFromTime lt) []
            @ field ''year'' (opt_year opts) (YearFromTime lt) []
            @ field ''hour'' (opt_hour opts) hr []
            @ field ''minute'' (opt_minute opts) (MinFromTime lt) []
            @ field ''second'' (opt_second opts) (SecFromTime lt) []
            @ (if opt_hour opts \<noteq> None \<and> h12
               then [(''dayPeriod'', if HourFromTime lt < 12 then ''AM'' else ''PM'')] else [])))"

definition demoDateTimeFormat ::
  "int \<Rightarrow> string option \<Rightarrow> DateTimeFormatOptions \<Rightarrow> error + DateTimeFormat" where
  "demoDateTimeFormat hostOff locale opts =
     (if (case locale of Some l \<Rightarrow> \<not> demoValidTag l | None \<Rightarrow> False) then Inl RangeError
      else (case opt_timeZone opts of
              None \<Rightarrow> Inr (demoParts hostOff opts)
            | Some z \<Rightarrow> (case demoZoneOffset z of
                           None \<Rightarrow> Inl RangeError
                         | Some off \<Rightarrow> Inr (demoParts off opts))))"

definition demoPlatform :: "int \<Rightarrow> Platform" where
  "demoPlatform hostOff =
     \<lparr>navigatorLanguage = Some ''en-US'', getCanonicalLocales = demoCanonicalLocales,
      newDateTimeFormat = demoDateTimeFormat hostOff, localTZA = (\<lambda>t. hostOff)\<rparr>"

section \<open>Concrete inputs\<close>

text \<open>A format that names a preset and leaves the custom fields undefined.\<close>

definition fmtOf :: "Preset \<Rightarrow> DateFormat" where
  "fmtOf p = \<lparr>fmt_preset = p, fmt_year = None, fmt_yearFormat = None, fmt_month = None,
     fmt_monthFormat = None, fmt_day = None, fmt_dayFormat = None, fmt_weekday = None,
     fmt_weekdayFormat = None, fmt_separatorStyle = None\<rparr>"


text \<open>A flip digit that shows 5 and is at rest.\<close>

definition flipDigit5 :: FlipDigit where
  "flipDigit5 = \<lparr>currentRef = DStr ''5'', nextRef = DStr ''5'', nextAboveEl = Some ''5'',
     currentBelowEl = Some ''5'', frontEl = Some ''5'', backEl = Some ''5'',
     cardClasses = [''ha-dc__card'']\<rparr>"

text \<open>
  A digital clock that shows the day alone and leaves \<open>dayFormat\<close> undefined, and one
  that shows the minute alone.
\<close>

definition dayOnly :: ShowConfig where
  "dayOnly = \<lparr>show_hourFormat = H12, show_year = False, show_yearFormat = None,
     show_month = False, show_monthFormat = None, show_day = True, show_dayFormat = None,
     show_hour = False, show_minute = False, show_second = False, show_hours_am_pm = False,
     show_hoursAmPmFormat = None, show_hoursAmPmPosition = None\<rparr>"

definition minuteOnly :: ShowConfig where
  "minuteOnly = dayOnly\<lparr>show_day := False, show_minute := True\<rparr>"

text \<open>
  A formatter that prints a lone minute without padding, as engines do for
  \<open>{ minute: "2-digit" }\<close>.
\<close>

definition loneMinute :: DateTimeFormat where
  "loneMinute t = [(''minute'', string_of_int (MinFromTime t))]"

text \<open>
  A document of span texts, and the updater registered for its \<open>i\<close>-th span.
\<close>

definition spanAt :: "nat \<Rightarrow> string list DigitUpdater" where
  "spanAt i next opts doc = doc[i := spanUpdater next opts (doc ! i)]"

section \<open>Conditions of the claims\<close>

text \<open>
  The units the digital clock pads: the month under the format \<open>"2-digit"\<close> or an
  undefined format, the day under the format \<open>"2-digit"\<close>, and hour, minute and second.
\<close>

definition twoDigitUnit :: "ShowConfig \<Rightarrow> UnitKey \<Rightarrow> bool" where
  "twoDigitUnit s k =
     ((k = UMonth \<and> show_month s
         \<and> (show_monthFormat s = None \<or> show_monthFormat s = Some TwoDigit))
      \<or> (k = UDay \<and> show_day s \<and> show_dayFormat s = Some TwoDigit)
      \<or> k = UHour \<or> k = UMinute \<or> k = USecond)"

text \<open>Invariants of the timers of the two widgets.\<close>

definition dt_inv :: "DateTextTimers \<Rightarrow> bool" where
  "dt_inv s =
     (case dt_intervalRef s of
        None \<Rightarrow> \<not> dt_effectActive s \<and> active (dt_table s) = []
      | Some h \<Rightarrow>
          h \<noteq> 0 \<and> h \<le> issued (dt_table s)
          \<and> (if dt_effectActive s
              then (\<exists>r. active (dt_table s)
                          = [\<lparr>handle = h, kind = IntervalTimer, delay = 60000, run = r\<rparr>])
              else active (dt_table s) = []))"

definition dc_inv :: "DigitalClockTimers \<Rightarrow> bool" where
  "dc_inv s =
     (case dc_cleanup s of
        None \<Rightarrow> active (dc_table s) = []
      | Some (timeoutId, r) \<Rightarrow>
          timeoutId \<le> issued (dc_table s)
          \<and> ((\<exists>d. active (dc_table s)
                      = [\<lparr>handle = timeoutId, kind = TimeoutTimer, delay = d, run = r\<rparr>]
                 \<and> dc_intervalRefs s r = 0)
              \<or> (active (dc_table s)
                    = [\<lparr>handle = dc_intervalRefs s r, kind = IntervalTimer, delay = 1000, run = r\<rparr>]
                  \<and> dc_intervalRefs s r \<noteq> 0 \<and> dc_intervalRefs s r \<noteq> timeoutId
                  \<and> dc_intervalRefs s r \<le> issued (dc_table s))))"

section \<open>Properties\<close>

subsection \<open>Helper facts about decimal rendering\<close>

lemma js_rem_nonneg: "0 \<le> a \<Longrightarrow> 0 < b \<Longrightarrow> js_rem a b = a mod b"
  by (cases "a = 0") (simp_all add: js_rem_def)

subsection \<open>C1: ordinal suffix\<close>

text \<open>
  C1. For every day value from 1 to 31, \<open>getOrdinalSuffix\<close> returns the decimal day
  followed by the English ordinal suffix: "th" when the day modulo 100 is 11, 12 or 13,
  otherwise "st", "nd", "rd" for the last digits 1, 2, 3 and "th" in the remaining cases;
  in particular 11th, 12th, 13th, 21st, 22nd, 23rd, 24th.
\<close>

theorem getOrdinalSuffix_days:
  "(\<forall>d \<in> {1..31}. getOrdinalSuffix d = string_of_int d @ englishOrdinalRule d)
   \<and> map getOrdinalSuffix [11, 12, 13, 21, 22, 23, 24]
       = [''11th'', ''12th'', ''13th'', ''21st'', ''22nd'', ''23rd'', ''24th'']"
proof
  show "\<forall>d \<in> {1..31}. getOrdinalSuffix d = string_of_int d @ englishOrdinalRule d"
  proof
    fix d :: int
    assume "d \<in> {1..31}"
    then have nn: "0 \<le> d" by simp
    have r100: "js_rem d 100 = d mod 100" using nn by (simp add: js_rem_nonneg)
    have r10: "js_rem d 10 = d mod 10" using nn by (simp add: js_rem_nonneg)
    show "getOrdinalSuffix d = string_of_int d @ englishOrdinalRule d"
      unfolding getOrdinalSuffix_def englishOrdinalRule_def Let_def r100 r10
      by auto
  qed
next
  show "map getOrdinalSuffix [11, 12, 13, 21, 22, 23, 24]
       = [''11th'', ''12th'', ''13th'', ''21st'', ''22nd'', ''23rd'', ''24th'']"
    by (simp add: getOrdinalSuffix_def js_rem_def string_of_int_def string_of_nat.simps
        digitChars_def)
qed

theorem getOrdinalSuffix_days_witness:
  "(3::int) \<in> {1..31} \<and> getOrdinalSuffix 3 = ''3rd''"
proof -
  have mem: "(3::int) \<in> {1..31}" by simp
  have "getOrdinalSuffix 3 = string_of_int 3 @ englishOrdinalRule 3"
    using getOrdinalSuffix_days mem by blast
  then show ?thesis
    by (simp add: englishOrdinalRule_def string_of_int_def string_of_nat.simps digitChars_def)
qed

subsection \<open>C9: order of the displayed units\<close>

text \<open>
  C9. For every show configuration, \<open>enabledUnits\<close> returns a subsequence of the fixed
  order year, month, day, hour, minute, second, hours_am_pm, and it contains hours_am_pm
  exactly when \<open>show.hours_am_pm\<close> is true and \<open>show.hourFormat\<close> is "12".
\<close>

theorem enabledUnits_ordered:
  "subseq (enabledUnits s) [UYear, UMonth, UDay, UHour, UMinute, USecond, UHoursAmPm]
   \<and> (UHoursAmPm \<in> set (enabledUnits s) \<longleftrightarrow> (show_hours_am_pm s \<and> show_hourFormat s = H12))"
proof
  have "subseq (enabledUnits s) ORDERED_UNITS"
    unfolding enabledUnits_def by (rule subseq_filter_left)
  then show "subseq (enabledUnits s) [UYear, UMonth, UDay, UHour, UMinute, USecond, UHoursAmPm]"
    by (simp add: ORDERED_UNITS_def)
next
  show "UHoursAmPm \<in> set (enabledUnits s) \<longleftrightarrow> (show_hours_am_pm s \<and> show_hourFormat s = H12)"
    by (simp add: enabledUnits_def ORDERED_UNITS_def)
qed

subsection \<open>C7: the sequence of tokens\<close>








subsection \<open>C5: the locale never raises\<close>

text \<open>
  C5. For every input (a string or undefined) \<open>getLocale\<close> returns and does not throw.
  When the canonicalization of the chosen language tag fails it returns undefined, which
  selects the default locale of the platform; when it succeeds it returns the first
  canonical tag.
\<close>

theorem getLocale_total:
  "(\<exists>r. getLocale P inputLocale = Inr r)
   \<and> (\<forall>e. getCanonicalLocales P [chosenLang P inputLocale] = Inl e
          \<longrightarrow> getLocale P inputLocale = Inr None)
   \<and> (\<forall>ls. getCanonicalLocales P [chosenLang P inputLocale] = Inr ls
          \<longrightarrow> getLocale P inputLocale = Inr (firstElement ls))"
  by (cases "getCanonicalLocales P [chosenLang P inputLocale]")
     (simp_all add: getLocale_def tryCatch_def Let_def)

theorem getLocale_total_witness:
  "getCanonicalLocales (demoPlatform 0) [chosenLang (demoPlatform 0) (Some ''en_US'')] = Inl RangeError
   \<and> getLocale (demoPlatform 0) (Some ''en_US'') = Inr None
   \<and> getCanonicalLocales (demoPlatform 0) [chosenLang (demoPlatform 0) None] = Inr [''en-US'']
   \<and> getLocale (demoPlatform 0) None = Inr (Some ''en-US'')"
proof -
  have a: "getCanonicalLocales (demoPlatform 0) [chosenLang (demoPlatform 0) (Some ''en_US'')] = Inl RangeError"
    by (simp add: demoPlatform_def chosenLang_def demoCanonicalLocales_def demoValidTag_def)
  have b: "getCanonicalLocales (demoPlatform 0) [chosenLang (demoPlatform 0) None] = Inr [''en-US'']"
    by (simp add: demoPlatform_def chosenLang_def demoCanonicalLocales_def demoValidTag_def)
  have "getLocale (demoPlatform 0) (Some ''en_US'') = Inr None"
    using getLocale_total[of "demoPlatform 0" "Some ''en_US''"] a by blast
  moreover have "getLocale (demoPlatform 0) None = Inr (firstElement [''en-US''])"
    using getLocale_total[of "demoPlatform 0" None] b by blast
  ultimately show ?thesis using a b by (simp add: firstElement_def)
qed


subsection \<open>C10: the initial hands of the analog clock\<close>

text \<open>
  C10. For every locale and time zone the computation of the initial hands returns and
  does not propagate an exception; when the construction of the formatter throws (an
  invalid time zone, say) the three delays and the three starting rotations are 0.
\<close>

theorem analogInit_total:
  "(\<exists>h. analogInit P locale timezone now = Inr h)
   \<and> (\<forall>l e. getLocale P locale = Inr l
            \<and> newDateTimeFormat P l
                 (analogOptions (case timezone of None \<Rightarrow> ''user-settings'' | Some z \<Rightarrow> z)) = Inl e
          \<longrightarrow> analogInit P locale timezone now = Inr zeroHands)
   \<and> hourDelay zeroHands = Some 0 \<and> minuteDelay zeroHands = Some 0 \<and> secondDelay zeroHands = Some 0
   \<and> hourRotationStart zeroHands = Some 0 \<and> minuteRotationStart zeroHands = Some 0
   \<and> secondRotationStart zeroHands = Some 0"
proof (intro conjI allI impI)
  show "\<exists>h. analogInit P locale timezone now = Inr h"
    by (simp add: analogInit_def tryCatch_def Let_def split: sum.splits)
next
  fix l e
  assume "getLocale P locale = Inr l
            \<and> newDateTimeFormat P l
                 (analogOptions (case timezone of None \<Rightarrow> ''user-settings'' | Some z \<Rightarrow> z)) = Inl e"
  then show "analogInit P locale timezone now = Inr zeroHands"
    by (simp add: analogInit_def tryCatch_def Let_def)
qed (simp_all add: zeroHands_def)

theorem analogInit_total_witness:
  "getLocale (demoPlatform 0) (Some ''en-US'') = Inr (Some ''en-US'')
   \<and> newDateTimeFormat (demoPlatform 0) (Some ''en-US'') (analogOptions ''Mars/Olympus'') = Inl RangeError
   \<and> analogInit (demoPlatform 0) (Some ''en-US'') (Some ''Mars/Olympus'') 1738353601500 = Inr zeroHands"
proof -
  have a: "getLocale (demoPlatform 0) (Some ''en-US'') = Inr (Some ''en-US'')"
    by (simp add: getLocale_def tryCatch_def chosenLang_def demoPlatform_def demoCanonicalLocales_def
        demoValidTag_def firstElement_def)
  have b: "newDateTimeFormat (demoPlatform 0) (Some ''en-US'') (analogOptions ''Mars/Olympus'') = Inl RangeError"
    by (simp add: demoPlatform_def demoDateTimeFormat_def demoValidTag_def analogOptions_def
        noOptions_def demoZoneOffset_def)
  show ?thesis
    using analogInit_total[of "demoPlatform 0" "Some ''en-US''" "Some ''Mars/Olympus''" 1738353601500] a b
    by simp
qed

subsection \<open>C6: an unchanged digit\<close>

text \<open>
  C6. Applying a digit updater with a next value equal to the value it shows changes
  nothing: the updater of a flip digit returns the state as it is (the texts, the class
  list of the card and the current and next refs) when \<open>next\<close> is the current digit, with
  or without the option \<open>immediate\<close>; the updater of a span leaves the text as it is when
  the text is already the text of \<open>next\<close>.
\<close>

theorem digit_update_unchanged:
  "(next = currentRef st \<longrightarrow> updateDigit next opts st = st)
   \<and> (String next = textContent \<longrightarrow> spanUpdater next opts textContent = textContent)"
  by (simp add: updateDigit_def spanUpdater_def)

theorem digit_update_unchanged_witness:
  "DStr ''5'' = currentRef flipDigit5
   \<and> updateDigit (DStr ''5'') None flipDigit5 = flipDigit5
   \<and> updateDigit (DStr ''5'') (Some \<lparr>immediate = Some True\<rparr>) flipDigit5 = flipDigit5
   \<and> String (DStr ''5'') = ''5''
   \<and> spanUpdater (DStr ''5'') None ''5'' = ''5''"
proof -
  have c: "DStr ''5'' = currentRef flipDigit5" by (simp add: flipDigit5_def)
  have s: "String (DStr ''5'') = ''5''" by (simp add: String_def)
  show ?thesis
    using digit_update_unchanged[of "DStr ''5''" flipDigit5 None "''5''"]
      digit_update_unchanged[of "DStr ''5''" flipDigit5 "Some \<lparr>immediate = Some True\<rparr>" "''5''"] c s
    by simp
qed

subsection \<open>C4: the composer as a function of instant, locale, time zone and format\<close>

text \<open>
  What holds of the source. The composer throws exactly when the constructor of the
  formatter throws, and for a format whose day is not ordinal two hosts whose \<open>Intl\<close>
  builds the same formatter compose the same string, whatever their own time zones.
\<close>

lemma composePreview_throws_in_constructor:
  "(composePreview P d locale timezone f = Inl e)
     = (newDateTimeFormat P locale (formatterOptions timezone f) = Inl e)"
  by (simp add: composePreview_def buildFormatter_def Let_def split: sum.splits)

lemma composePreview_host_independent:
  assumes "\<not> dayIsOrdinal f"
    and "newDateTimeFormat P1 locale (formatterOptions timezone f)
           = newDateTimeFormat P2 locale (formatterOptions timezone f)"
  shows "composePreview P1 d locale timezone f = composePreview P2 d locale timezone f"
  using assms by (simp add: composePreview_def buildFormatter_def Let_def split: sum.splits)

text \<open>
  C4. The claim is that two calls of \<open>composePreview\<close> with equal instant, locale, time
  zone and format return equal strings, and that the call returns for every valid
  configuration. For an ordinal format the source reads the day with \<open>getDate\<close> in the
  time zone of the host, which is none of the four arguments: for the instant
  2025-01-31T20:00:00Z, the locale en-US, the time zone Asia/Tokyo and the preset
  day_ordinal, the constructor builds the same formatter on a host in UTC and on a host in
  Tokyo, and the composer returns "31st" on the first and "1st" on the second.
\<close>

theorem composePreview_depends_on_host_zone:
  "newDateTimeFormat (demoPlatform 0) (Some ''en-US'')
       (formatterOptions (Some ''Asia/Tokyo'') (fmtOf day_ordinal))
     = newDateTimeFormat (demoPlatform 32400000) (Some ''en-US'')
         (formatterOptions (Some ''Asia/Tokyo'') (fmtOf day_ordinal))
   \<and> composePreview (demoPlatform 0) 1738353600000 (Some ''en-US'') (Some ''Asia/Tokyo'')
         (fmtOf day_ordinal) = Inr ''31st''
   \<and> composePreview (demoPlatform 32400000) 1738353600000 (Some ''en-US'') (Some ''Asia/Tokyo'')
         (fmtOf day_ordinal) = Inr ''1st''"
proof -
  have same: "newDateTimeFormat (demoPlatform 0) (Some ''en-US'')
       (formatterOptions (Some ''Asia/Tokyo'') (fmtOf day_ordinal))
     = newDateTimeFormat (demoPlatform 32400000) (Some ''en-US'')
         (formatterOptions (Some ''Asia/Tokyo'') (fmtOf day_ordinal))"
    by (simp add: demoPlatform_def demoDateTimeFormat_def demoValidTag_def demoZoneOffset_def
        formatterOptions_def fmtOf_def spreadOver_def orElse_def noOptions_def options_of_def)
  have out: "composePreview (demoPlatform 0) 1738353600000 (Some ''en-US'') (Some ''Asia/Tokyo'')
         (fmtOf day_ordinal) = Inr ''31st''
   \<and> composePreview (demoPlatform 32400000) 1738353600000 (Some ''en-US'') (Some ''Asia/Tokyo'')
         (fmtOf day_ordinal) = Inr ''1st''"
    by code_simp
  from same out show ?thesis by (rule conjI)
qed

subsection \<open>C2: the day of an ordinal format\<close>

lemma composePreview_ordinal_day:
  assumes "buildFormatter P locale timezone f = Inr fmt" and "dayIsOrdinal f"
  shows "composePreview P d locale timezone f
           = Inr (fst (fold (previewStep ((extractParts_DateText d fmt)
                                (PDay \<mapsto> getOrdinalSuffix (getDate P d))))
                        (buildSequence f) ([], False)))"
  using assms by (simp add: composePreview_def Let_def)

text \<open>
  C2. The claim is that the day token of an ordinal format is the ordinal of the day of the
  month as the instant reads in the configured time zone. The source takes the day from
  \<open>getDate\<close>, which reads the instant in the time zone of the host. On a host in UTC,
  configured for Asia/Tokyo (nine hours ahead), the instant 2025-01-31T20:00:00Z is the
  first of February in Tokyo: the numeric preset shows the day 1 and the month February,
  and the ordinal presets show "31st" and "February 31st". The tick of \<open>Render\<close> does the
  same.
\<close>

theorem composePreview_ordinal_reads_host_day:
  "composePreview (demoPlatform 0) 1738353600000 (Some ''en-US'') (Some ''Asia/Tokyo'')
       (fmtOf day_ordinal) = Inr ''31st''
   \<and> composePreview (demoPlatform 0) 1738353600000 (Some ''en-US'') (Some ''Asia/Tokyo'')
       (fmtOf day_numeric) = Inr ''1''
   \<and> composePreview (demoPlatform 0) 1738353600000 (Some ''en-US'') (Some ''Asia/Tokyo'')
       (fmtOf month_day_ordinal) = Inr ''February 31st''
   \<and> demoZoneOffset ''Asia/Tokyo'' = Some 32400000
   \<and> getOrdinalSuffix (DateFromTime (1738353600000 + 32400000)) = ''1st''
   \<and> tick_DateText (demoPlatform 0) 1738353600000
       (demoParts 32400000 (formatterOptions (Some ''Asia/Tokyo'') (fmtOf day_ordinal)))
       (fmtOf day_ordinal) PDay = Some ''31st''"
  by code_simp

subsection \<open>C3: two-digit padding\<close>

lemma unitValue_padded:
  assumes "parts k = Some [c]" and "twoDigitUnit s k"
  shows "unitValue P s parts now k = [CHR ''0'', c]"
  using assms
  by (cases k) (auto simp: unitValue_def twoDigitUnit_def valueOr_def pad2_def Let_def)

text \<open>
  C3, as stated, fails for a day whose format is undefined: with the day alone enabled the
  formatter gets no field, prints the numeric date, and the day "5" of 2025-01-05 is shown
  as one digit by \<open>buildInitialSections\<close> and by \<open>applyTick\<close>.
\<close>

theorem day_undefined_format_not_padded:
  "buildDateFormatter (demoPlatform 0) (Some ''en-US'') (Some ''UTC'') dayOnly
     = Inr (demoParts 0 (dateFormatterOptions (Some ''UTC'') dayOnly))
   \<and> show_day dayOnly \<and> show_dayFormat dayOnly = None
   \<and> extractParts_DigitalClock 1736035200000
        (demoParts 0 (dateFormatterOptions (Some ''UTC'') dayOnly)) UDay = Some ''5''
   \<and> buildInitialSections (demoPlatform 0) 1736035200000 (enabledUnits dayOnly) dayOnly
        (demoParts 0 (dateFormatterOptions (Some ''UTC'') dayOnly)) = [(UDay, [''5''])]
   \<and> applyTick (demoPlatform 0) (enabledUnits dayOnly) dayOnly [UDay \<mapsto> [spanAt 0]] True
        (demoParts 0 (dateFormatterOptions (Some ''UTC'') dayOnly)) 1736035200000 [''4'']
       = ([''5''], False)"
proof -
  have ctor: "buildDateFormatter (demoPlatform 0) (Some ''en-US'') (Some ''UTC'') dayOnly
     = Inr (demoParts 0 (dateFormatterOptions (Some ''UTC'') dayOnly))"
    by (simp add: buildDateFormatter_def demoPlatform_def demoDateTimeFormat_def demoValidTag_def
        dateFormatterOptions_def demoZoneOffset_def Let_def)
  have shown: "show_day dayOnly \<and> show_dayFormat dayOnly = None
   \<and> extractParts_DigitalClock 1736035200000
        (demoParts 0 (dateFormatterOptions (Some ''UTC'') dayOnly)) UDay = Some ''5''
   \<and> buildInitialSections (demoPlatform 0) 1736035200000 (enabledUnits dayOnly) dayOnly
        (demoParts 0 (dateFormatterOptions (Some ''UTC'') dayOnly)) = [(UDay, [''5''])]
   \<and> applyTick (demoPlatform 0) (enabledUnits dayOnly) dayOnly [UDay \<mapsto> [spanAt 0]] True
        (demoParts 0 (dateFormatterOptions (Some ''UTC'') dayOnly)) 1736035200000 [''4'']
       = ([''5''], False)"
    by code_simp
  from ctor shown show ?thesis by (rule conjI)
qed

text \<open>
  C3, amended. In \<open>buildInitialSections\<close> and in \<open>applyTick\<close>, a month string of length 1
  under the format "2-digit" or an undefined format, a day string of length 1 under the
  format "2-digit", and every hour, minute or second string of length 1 becomes the two
  characters "0" and that character: the section of the unit holds these two digits, and
  the updaters of the unit are called with them.
\<close>

theorem two_digit_units_padded:
  assumes "extractParts_DigitalClock now fmt k = Some [c]" and "twoDigitUnit s k"
  shows "(\<forall>e \<in> set (buildInitialSections P now enabled s fmt).
            fst e = k \<longrightarrow> snd e = [[CHR ''0''], [c]])
         \<and> (k \<in> set enabled \<longrightarrow>
              (k, [[CHR ''0''], [c]]) \<in> set (buildInitialSections P now enabled s fmt))
         \<and> applyTickUnit P s digitUpdaters firstRun (extractParts_DigitalClock now fmt) now k doc
             = (case digitUpdaters k of
                  None \<Rightarrow> doc
                | Some updaters \<Rightarrow> updateDigits updaters firstRun [[CHR ''0''], [c]] doc)
         \<and> applyTick P [k] s digitUpdaters firstRun fmt now doc
             = (case digitUpdaters k of
                  None \<Rightarrow> doc
                | Some updaters \<Rightarrow> updateDigits updaters firstRun [[CHR ''0''], [c]] doc, False)"
proof -
  have v: "unitValue P s (extractParts_DigitalClock now fmt) now k = [CHR ''0'', c]"
    using unitValue_padded[of "extractParts_DigitalClock now fmt" k c s P now] assms by simp
  have sp: "splitChars [CHR ''0'', c] = [[CHR ''0''], [c]]" by (simp add: splitChars_def)
  have unit: "applyTickUnit P s digitUpdaters firstRun (extractParts_DigitalClock now fmt) now k doc
             = (case digitUpdaters k of
                  None \<Rightarrow> doc
                | Some updaters \<Rightarrow> updateDigits updaters firstRun [[CHR ''0''], [c]] doc)"
    by (simp add: applyTickUnit_def v sp Let_def)
  have a: "\<forall>e \<in> set (buildInitialSections P now enabled s fmt).
            fst e = k \<longrightarrow> snd e = [[CHR ''0''], [c]]"
    by (auto simp: buildInitialSections_def Let_def v sp)
  have b: "k \<in> set enabled \<longrightarrow>
              (k, [[CHR ''0''], [c]]) \<in> set (buildInitialSections P now enabled s fmt)"
    using v sp by (force simp: buildInitialSections_def Let_def)
  have t: "applyTick P [k] s digitUpdaters firstRun fmt now doc
             = (case digitUpdaters k of
                  None \<Rightarrow> doc
                | Some updaters \<Rightarrow> updateDigits updaters firstRun [[CHR ''0''], [c]] doc, False)"
    by (simp add: applyTick_def Let_def unit)
  from a b unit t show ?thesis by blast
qed

theorem two_digit_units_padded_witness:
  "extractParts_DigitalClock 300000 loneMinute UMinute = Some [CHR ''5'']
   \<and> twoDigitUnit minuteOnly UMinute
   \<and> UMinute \<in> set (enabledUnits minuteOnly)
   \<and> (UMinute, [''0'', ''5''])
        \<in> set (buildInitialSections (demoPlatform 0) 300000 (enabledUnits minuteOnly) minuteOnly loneMinute)
   \<and> applyTick (demoPlatform 0) [UMinute] minuteOnly [UMinute \<mapsto> [spanAt 0, spanAt 1]] False
        loneMinute 300000 [''0'', ''4'']
       = ([''0'', ''5''], False)"
proof -
  have p: "extractParts_DigitalClock 300000 loneMinute UMinute = Some [CHR ''5'']" by code_simp
  have u: "twoDigitUnit minuteOnly UMinute" by (simp add: twoDigitUnit_def)
  have m: "UMinute \<in> set (enabledUnits minuteOnly)" by code_simp
  have ups: "updateDigits [spanAt 0, spanAt 1] False [''0'', ''5''] [''0'', ''4''] = [''0'', ''5'']"
    by code_simp
  note w = two_digit_units_padded[OF p u, of "demoPlatform 0" "enabledUnits minuteOnly"
      "[UMinute \<mapsto> [spanAt 0, spanAt 1]]" False "[''0'', ''4'']"]
  from w m have sec: "(UMinute, [''0'', ''5''])
        \<in> set (buildInitialSections (demoPlatform 0) 300000 (enabledUnits minuteOnly) minuteOnly loneMinute)"
    by blast
  from w ups have tick: "applyTick (demoPlatform 0) [UMinute] minuteOnly [UMinute \<mapsto> [spanAt 0, spanAt 1]] False
        loneMinute 300000 [''0'', ''4''] = ([''0'', ''5''], False)"
    by simp
  from p u m sec tick show ?thesis by blast
qed

subsection \<open>C8: one repeating timer per widget\<close>

lemma dt_init_inv: "dt_inv (dt_init n)"
  by (simp add: dt_inv_def dt_init_def)

lemma dt_cleanup_clears: "dt_inv s \<Longrightarrow> active (dt_table (dt_cleanup s)) = []"
  by (auto simp: dt_inv_def dt_cleanup_def clearIfSet_def clearTimer_def split: option.splits if_splits)

lemma dt_effect_sets:
  assumes "active (dt_table s) = []"
  shows "dt_inv ((dt_effect s)\<lparr>dt_effectActive := True\<rparr>)"
  using assms
  by (auto simp: dt_inv_def dt_effect_def clearIfSet_def clearTimer_def setTimer_def Let_def
      split: option.splits)

lemma dt_cleanup_inv:
  "dt_inv s \<Longrightarrow> dt_inv ((dt_cleanup s)\<lparr>dt_effectActive := False\<rparr>)"
  by (auto simp: dt_inv_def dt_cleanup_def clearIfSet_def clearTimer_def split: option.splits if_splits)

lemma dt_step_inv: "dt_inv s \<Longrightarrow> dt_inv (dt_step ev s)"
proof (cases ev)
  case RunEffect
  assume inv: "dt_inv s"
  show ?thesis
  proof (cases "dt_effectActive s")
    case True
    have "active (dt_table (dt_cleanup s)) = []" using inv by (rule dt_cleanup_clears)
    then show ?thesis using RunEffect True by (simp add: dt_step_def dt_effect_sets)
  next
    case False
    then have "active (dt_table s) = []" using inv
      by (auto simp: dt_inv_def split: option.splits)
    then show ?thesis using RunEffect False by (simp add: dt_step_def dt_effect_sets)
  qed
next
  case Unmount
  assume "dt_inv s"
  then show ?thesis using Unmount by (simp add: dt_step_def dt_cleanup_inv)
next
  case (Fire h)
  assume "dt_inv s"
  then show ?thesis using Fire by (simp add: dt_step_def)
qed

lemma dt_run_inv: "dt_inv s \<Longrightarrow> dt_inv (fold dt_step evs s)"
  by (induction evs arbitrary: s) (simp_all add: dt_step_inv)

lemma dt_inv_facts:
  assumes "dt_inv s"
  shows "length (active (dt_table s)) \<le> 1"
    and "\<forall>t \<in> set (active (dt_table s)). kind t = IntervalTimer \<and> delay t = 60000"
    and "\<not> dt_effectActive s \<longrightarrow> active (dt_table s) = []"
  using assms by (auto simp: dt_inv_def split: option.splits if_splits)

lemma dc_init_inv: "dc_inv (dc_init n)"
  by (simp add: dc_inv_def dc_init_def)

lemma dc_runCleanup_clears:
  "dc_inv s \<Longrightarrow> active (dc_table (dc_runCleanup s)) = [] \<and> dc_cleanup (dc_runCleanup s) = None"
  by (auto simp: dc_inv_def dc_runCleanup_def clearTimer_def Let_def split: option.splits)

lemma dc_effect_inv:
  "active (dc_table s) = [] \<Longrightarrow> dc_inv (dc_effect nowMs s)"
  by (simp add: dc_inv_def dc_effect_def setTimer_def Let_def)

lemma dc_fire_inv: "dc_inv s \<Longrightarrow> dc_inv (dc_fire h s)"
proof (cases "dc_cleanup s")
  case None
  assume "dc_inv s"
  then have "active (dc_table s) = []" using None by (simp add: dc_inv_def)
  then show ?thesis using None by (simp add: dc_fire_def dc_inv_def)
next
  case (Some c)
  assume inv: "dc_inv s"
  obtain tid r where c: "c = (tid, r)" by (cases c)
  from inv Some c show ?thesis
    by (auto simp: dc_inv_def dc_fire_def clearTimer_def setTimer_def Let_def)
qed

lemma dc_step_inv: "dc_inv s \<Longrightarrow> dc_inv (dc_step nowMs ev s)"
proof (cases ev)
  case RunEffect
  assume "dc_inv s"
  then have "active (dc_table (dc_runCleanup s)) = []" by (simp add: dc_runCleanup_clears)
  then show ?thesis using RunEffect by (simp add: dc_step_def dc_effect_inv)
next
  case Unmount
  assume "dc_inv s"
  then have "active (dc_table (dc_runCleanup s)) = [] \<and> dc_cleanup (dc_runCleanup s) = None"
    by (rule dc_runCleanup_clears)
  then show ?thesis using Unmount by (simp add: dc_step_def dc_inv_def)
next
  case (Fire h)
  assume "dc_inv s"
  then show ?thesis using Fire by (simp add: dc_step_def dc_fire_inv)
qed

lemma dc_run_inv: "dc_inv s \<Longrightarrow> dc_inv (fold (dc_step nowMs) evs s)"
  by (induction evs arbitrary: s) (simp_all add: dc_step_inv)

lemma dc_inv_facts:
  assumes "dc_inv s"
  shows "length (active (dc_table s)) \<le> 1"
    and "length (intervals (dc_table s)) \<le> 1"
    and "length (timeouts (dc_table s)) \<le> 1"
    and "\<forall>t \<in> set (intervals (dc_table s)). delay t = 1000"
    and "dc_cleanup s = None \<longrightarrow> active (dc_table s) = []"
  using assms by (auto simp: dc_inv_def intervals_def timeouts_def split: option.splits)

text \<open>
  C8. In every state an instance reaches by mounting, running its effect again, timers
  firing and unmounting (from a table with any number of handles issued before), the
  DateText widget holds at most one active timer, an interval of 60 seconds, and none
  when no effect is active; the digital clock holds at most one active timer, its
  alignment timeout or after it an interval of one second. After the cleanup of the
  effect, and so after unmounting, no timer of the instance is active.
\<close>

theorem one_timer_per_widget:
  "length (active (dt_table (fold dt_step evs (dt_init n)))) \<le> 1
   \<and> (\<forall>t \<in> set (active (dt_table (fold dt_step evs (dt_init n)))).
         kind t = IntervalTimer \<and> delay t = 60000)
   \<and> (\<not> dt_effectActive (fold dt_step evs (dt_init n))
         \<longrightarrow> active (dt_table (fold dt_step evs (dt_init n))) = [])
   \<and> active (dt_table (dt_cleanup (fold dt_step evs (dt_init n)))) = []
   \<and> active (dt_table (fold dt_step (evs @ [Unmount]) (dt_init n))) = []
   \<and> length (intervals (dc_table (fold (dc_step nowMs) evs (dc_init n)))) \<le> 1
   \<and> length (timeouts (dc_table (fold (dc_step nowMs) evs (dc_init n)))) \<le> 1
   \<and> length (active (dc_table (fold (dc_step nowMs) evs (dc_init n)))) \<le> 1
   \<and> (\<forall>t \<in> set (intervals (dc_table (fold (dc_step nowMs) evs (dc_init n)))). delay t = 1000)
   \<and> active (dc_table (dc_runCleanup (fold (dc_step nowMs) evs (dc_init n)))) = []
   \<and> active (dc_table (fold (dc_step nowMs) (evs @ [Unmount]) (dc_init n))) = []"
proof -
  have dt: "dt_inv (fold dt_step evs (dt_init n))"
    by (rule dt_run_inv[OF dt_init_inv])
  have dc: "dc_inv (fold (dc_step nowMs) evs (dc_init n))"
    by (rule dc_run_inv[OF dc_init_inv])
  have dt': "dt_inv (fold dt_step (evs @ [Unmount]) (dt_init n))"
    by (rule dt_run_inv[OF dt_init_inv])
  have u1: "\<not> dt_effectActive (fold dt_step (evs @ [Unmount]) (dt_init n))"
    by (simp add: dt_step_def)
  have u2: "active (dt_table (fold dt_step (evs @ [Unmount]) (dt_init n))) = []"
    using dt_inv_facts(3)[OF dt'] u1 by blast
  have u3: "active (dc_table (fold (dc_step nowMs) (evs @ [Unmount]) (dc_init n))) = []"
    using dc_runCleanup_clears[OF dc] by (simp add: dc_step_def)
  show ?thesis
    using dt_inv_facts[OF dt] dt_cleanup_clears[OF dt] dc_inv_facts[OF dc]
      dc_runCleanup_clears[OF dc] u2 u3
    by blast
qed

theorem one_timer_per_widget_witness:
  "active (dt_table (fold dt_step [RunEffect, Fire 6, RunEffect] (dt_init 5)))
     = [\<lparr>handle = 7, kind = IntervalTimer, delay = 60000, run = 1\<rparr>]
   \<and> dt_effectActive (fold dt_step [RunEffect, Fire 6, RunEffect] (dt_init 5))
   \<and> active (dt_table (fold dt_step ([RunEffect, Fire 6, RunEffect] @ [Unmount]) (dt_init 5))) = []
   \<and> active (dc_table (fold (dc_step 1234) [RunEffect, Fire 6, RunEffect] (dc_init 5)))
     = [\<lparr>handle = 8, kind = TimeoutTimer, delay = 766, run = 1\<rparr>]
   \<and> active (dc_table (fold (dc_step 1234) [RunEffect, Fire 6] (dc_init 5)))
     = [\<lparr>handle = 7, kind = IntervalTimer, delay = 1000, run = 0\<rparr>]
   \<and> active (dc_table (fold (dc_step 1234) ([RunEffect, Fire 6, RunEffect] @ [Unmount]) (dc_init 5))) = []"
proof -
  have e: "active (dt_table (fold dt_step [RunEffect, Fire 6, RunEffect] (dt_init 5)))
     = [\<lparr>handle = 7, kind = IntervalTimer, delay = 60000, run = 1\<rparr>]
   \<and> dt_effectActive (fold dt_step [RunEffect, Fire 6, RunEffect] (dt_init 5))
   \<and> active (dc_table (fold (dc_step 1234) [RunEffect, Fire 6, RunEffect] (dc_init 5)))
     = [\<lparr>handle = 8, kind = TimeoutTimer, delay = 766, run = 1\<rparr>]
   \<and> active (dc_table (fold (dc_step 1234) [RunEffect, Fire 6] (dc_init 5)))
     = [\<lparr>handle = 7, kind = IntervalTimer, delay = 1000, run = 0\<rparr>]"
    by code_simp
  note w = one_timer_per_widget[of "[RunEffect, Fire 6, RunEffect]" 5 1234]
  from w have "active (dt_table (fold dt_step ([RunEffect, Fire 6, RunEffect] @ [Unmount]) (dt_init 5))) = []"
    by blast
  moreover from w have "active (dc_table (fold (dc_step 1234) ([RunEffect, Fire 6, RunEffect] @ [Unmount]) (dc_init 5))) = []"
    by blast
  ultimately show ?thesis using e by blast
qed


end
